theory Spec2Isabelle
  imports Main "HOL-Library.Sublist"
begin

section \<open>Python values and primitives used by the tool-call parsers\<close>

text \<open>
  Strings are lists of characters; a character stands for one code point below 256.
  The primitives below are the ones of Python's \<open>str\<close> and \<open>list\<close> that the
  sources call: \<open>str.isalnum\<close>, \<open>str.find\<close>, \<open>in\<close>, \<open>str.replace\<close> (all
  occurrences, and the first one only, \<open>count = 1\<close>), \<open>str.split\<close>, and indexing
  with Python's negative indices and its \<open>IndexError\<close>.
\<close>

datatype pyerr =
    IndexError | KeyError | TypeError | AttributeError | ValueError
  | RuntimeError | UnboundLocalError | JSONDecodeError

text \<open>
  \<open>c.isalnum()\<close> for one character: the letters and digits of ASCII and, in the
  Latin-1 range, the code points that Unicode classes as letters or as numeric.
\<close>

definition isalnum :: "char \<Rightarrow> bool" where
  "isalnum c =
     (let n = (of_char c :: nat) in
        (48 \<le> n \<and> n \<le> 57) \<or> (65 \<le> n \<and> n \<le> 90) \<or> (97 \<le> n \<and> n \<le> 122)
        \<or> n = 170 \<or> n = 178 \<or> n = 179 \<or> n = 181 \<or> n = 185 \<or> n = 186
        \<or> n = 188 \<or> n = 189 \<or> n = 190
        \<or> (192 \<le> n \<and> n \<le> 214) \<or> (216 \<le> n \<and> n \<le> 246) \<or> (248 \<le> n \<and> n \<le> 255))"

text \<open>\<open>s.find(sub)\<close>: the lowest index where \<open>sub\<close> starts, \<open>None\<close> for Python's -1.\<close>

fun py_find :: "string \<Rightarrow> string \<Rightarrow> nat option" where
  "py_find [] sub = (if sub = [] then Some 0 else None)"
| "py_find (c # cs) sub =
     (if prefix sub (c # cs) then Some 0 else map_option Suc (py_find cs sub))"

text \<open>\<open>sub in s\<close>.\<close>

definition py_in :: "string \<Rightarrow> string \<Rightarrow> bool" where
  "py_in sub s = (py_find s sub \<noteq> None)"

text \<open>\<open>s.replace(old, new, 1)\<close>: only the first occurrence is replaced.\<close>

definition py_replace_first :: "string \<Rightarrow> string \<Rightarrow> string \<Rightarrow> string" where
  "py_replace_first s old new =
     (case py_find s old of
        None \<Rightarrow> s
      | Some i \<Rightarrow> take i s @ new @ drop (i + length old) s)"

text \<open>
  \<open>s.replace(old, new)\<close>: every occurrence, scanning from the left without overlap.
  With an empty \<open>old\<close> Python puts \<open>new\<close> before every character and at the end.
\<close>

function py_replace :: "string \<Rightarrow> string \<Rightarrow> string \<Rightarrow> string" where
  "py_replace s old new =
     (if old = [] then new @ concat (map (\<lambda>c. c # new) s)
      else if s = [] then []
      else if prefix old s then new @ py_replace (drop (length old) s) old new
      else hd s # py_replace (tl s) old new)"
  by pat_completeness auto
termination
  by (relation "measure (\<lambda>(s, old, new). length s)") auto

declare py_replace.simps [simp del]

text \<open>
  \<open>s.split(sep)\<close> for a non-empty separator. Python raises \<open>ValueError\<close> on an
  empty separator; every separator in the sources is a non-empty constant, and the
  model returns the empty list there.
\<close>

lemma py_find_bound: "py_find s sub = Some i \<Longrightarrow> i + length sub \<le> length s"
proof (induction s arbitrary: i)
  case Nil
  then show ?case by (simp split: if_splits)
next
  case (Cons c cs)
  then show ?case
    by (auto split: if_splits dest: prefix_length_le)
qed

function py_split :: "string \<Rightarrow> string \<Rightarrow> string list" where
  "py_split s sep =
     (if sep = [] then []
      else (case py_find s sep of
              None \<Rightarrow> [s]
            | Some i \<Rightarrow> take i s # py_split (drop (i + length sep) s) sep))"
  by pat_completeness auto
termination
proof (relation "measure (\<lambda>(s, sep). length s)")
  fix s sep :: string and i :: nat
  assume "sep \<noteq> []" and "py_find s sep = Some i"
  then have "i + length sep \<le> length s" and "length sep \<noteq> 0"
    by (simp_all add: py_find_bound)
  then have "length s - (i + length sep) < length s"
    by arith
  then show "((drop (i + length sep) s, sep), (s, sep)) \<in> measure (\<lambda>(s, sep). length s)"
    by simp
qed simp

declare py_split.simps [simp del]

text \<open>
  \<open>xs[i]\<close> on a list: a negative index counts from the end, an index out of range
  raises \<open>IndexError\<close>. \<open>xs[i] = v\<close> likewise.
\<close>

definition py_index_of :: "nat \<Rightarrow> int \<Rightarrow> nat option" where
  "py_index_of len i =
     (if 0 \<le> i \<and> i < int len then Some (nat i)
      else if i < 0 \<and> - int len \<le> i then Some (nat (int len + i))
      else None)"

definition py_list_get :: "'a list \<Rightarrow> int \<Rightarrow> pyerr + 'a" where
  "py_list_get xs i =
     (case py_index_of (length xs) i of
        None \<Rightarrow> Inl IndexError
      | Some k \<Rightarrow> Inr (xs ! k))"

definition py_list_set :: "'a list \<Rightarrow> int \<Rightarrow> 'a \<Rightarrow> pyerr + 'a list" where
  "py_list_set xs i v =
     (case py_index_of (length xs) i of
        None \<Rightarrow> Inl IndexError
      | Some k \<Rightarrow> Inr (xs[k := v]))"

section \<open>Diff utilities\<close>

text \<open>
  \<open>find_common_prefix\<close>: the loop \<open>for i in range(0, min_length)\<close> with its
  accumulator \<open>prefix\<close>; \<open>break\<close> returns the accumulator.
\<close>

function find_common_prefix_loop :: "string \<Rightarrow> string \<Rightarrow> nat \<Rightarrow> string \<Rightarrow> string" where
  "find_common_prefix_loop s1 s2 i pre =
     (if i < min (length s1) (length s2) then
        (if s1 ! i = s2 ! i then find_common_prefix_loop s1 s2 (i + 1) (pre @ [s1 ! i])
         else pre)
      else pre)"
  by pat_completeness auto
termination
  by (relation "measure (\<lambda>(s1, s2, i, pre). min (length s1) (length s2) - i)") auto

declare find_common_prefix_loop.simps [simp del]

definition find_common_prefix :: "string \<Rightarrow> string \<Rightarrow> string" where
  "find_common_prefix s1 s2 = find_common_prefix_loop s1 s2 0 []"

text \<open>
  \<open>find_common_suffix\<close>: the loop \<open>for i in range(1, min_length + 1)\<close>; \<open>s[-i]\<close>
  is \<open>s ! (length s - i)\<close> for \<open>1 \<le> i \<le> length s\<close>.
\<close>

function find_common_suffix_loop :: "string \<Rightarrow> string \<Rightarrow> nat \<Rightarrow> string \<Rightarrow> string" where
  "find_common_suffix_loop s1 s2 i suf =
     (if i < min (length s1) (length s2) + 1 then
        (if s1 ! (length s1 - i) = s2 ! (length s2 - i) \<and> \<not> isalnum (s1 ! (length s1 - i))
         then find_common_suffix_loop s1 s2 (i + 1) (s1 ! (length s1 - i) # suf)
         else suf)
      else suf)"
  by pat_completeness auto
termination
  by (relation "measure (\<lambda>(s1, s2, i, suf). min (length s1) (length s2) + 1 - i)") auto

declare find_common_suffix_loop.simps [simp del]

definition find_common_suffix :: "string \<Rightarrow> string \<Rightarrow> string" where
  "find_common_suffix s1 s2 = find_common_suffix_loop s1 s2 1 []"

text \<open>
  \<open>extract_intermediate_diff(curr, old)\<close>. \<open>x[::-1]\<close> is \<open>rev x\<close>; the suffix is
  removed from the reversed string with \<open>replace(..., '', 1)\<close>, the prefix with
  \<open>replace(prefix, '', 1)\<close>, each only when it is non-empty.
\<close>

definition extract_intermediate_diff :: "string \<Rightarrow> string \<Rightarrow> string" where
  "extract_intermediate_diff cur old =
     (let suffix = find_common_suffix cur old;
          old' = rev (py_replace_first (rev old) (rev suffix) []);
          pre = find_common_prefix cur old';
          diff = cur;
          diff = (if length suffix \<noteq> 0
                  then rev (py_replace_first (rev diff) (rev suffix) []) else diff);
          diff = (if length pre \<noteq> 0 then py_replace_first diff pre [] else diff)
      in diff)"

section \<open>JSON values as Python sees them\<close>

text \<open>
  What \<open>json.loads\<close> and \<open>partial_json_parser.loads\<close> return, and what \<open>dict.get\<close>
  returns for a missing key: \<open>None\<close> (\<open>JNull\<close>), a bool, an int, a str, a list or a
  dict. A dict keeps its keys in insertion order and has each key once. Floats are
  left out.
\<close>

datatype json =
    JNull | JBool bool | JInt int | JStr string | JArr "json list"
  | JObj "(string \<times> json) list"

text \<open>Python's truth value of an object, as \<open>if x:\<close> and \<open>not x\<close> test it.\<close>

fun truthy :: "json \<Rightarrow> bool" where
  "truthy JNull = False"
| "truthy (JBool b) = b"
| "truthy (JInt n) = (n \<noteq> 0)"
| "truthy (JStr s) = (s \<noteq> [])"
| "truthy (JArr xs) = (xs \<noteq> [])"
| "truthy (JObj kvs) = (kvs \<noteq> [])"

text \<open>\<open>x.get(key)\<close>: only a dict has the method; a missing key gives \<open>None\<close>.\<close>

fun py_get :: "json \<Rightarrow> string \<Rightarrow> pyerr + json" where
  "py_get (JObj kvs) k = Inr (case map_of kvs k of None \<Rightarrow> JNull | Some v \<Rightarrow> v)"
| "py_get _ k = Inl AttributeError"

text \<open>\<open>x[key]\<close> with a string key.\<close>

fun py_getitem_key :: "json \<Rightarrow> string \<Rightarrow> pyerr + json" where
  "py_getitem_key (JObj kvs) k = (case map_of kvs k of None \<Rightarrow> Inl KeyError | Some v \<Rightarrow> Inr v)"
| "py_getitem_key _ k = Inl TypeError"

text \<open>
  \<open>x[i]\<close> with an integer index: an element of a list, a one-character string of a
  str, \<open>KeyError\<close> on a dict (its keys are strings), \<open>TypeError\<close> otherwise.
\<close>

fun py_getitem :: "json \<Rightarrow> int \<Rightarrow> pyerr + json" where
  "py_getitem (JArr xs) i = py_list_get xs i"
| "py_getitem (JStr s) i = (case py_list_get s i of Inl e \<Rightarrow> Inl e | Inr c \<Rightarrow> Inr (JStr [c]))"
| "py_getitem (JObj kvs) i = Inl KeyError"
| "py_getitem _ i = Inl TypeError"

text \<open>\<open>len(x)\<close>.\<close>

fun py_len :: "json \<Rightarrow> pyerr + nat" where
  "py_len (JArr xs) = Inr (length xs)"
| "py_len (JStr s) = Inr (length s)"
| "py_len (JObj kvs) = Inr (length kvs)"
| "py_len _ = Inl TypeError"

text \<open>\<open>x.append(v)\<close> and \<open>x[i] = v\<close>: a list has both; a str has neither.\<close>

fun py_append :: "json \<Rightarrow> json \<Rightarrow> pyerr + json" where
  "py_append (JArr xs) v = Inr (JArr (xs @ [v]))"
| "py_append _ v = Inl AttributeError"

fun py_setitem :: "json \<Rightarrow> int \<Rightarrow> json \<Rightarrow> pyerr + json" where
  "py_setitem (JArr xs) i v = (case py_list_set xs i v of Inl e \<Rightarrow> Inl e | Inr ys \<Rightarrow> Inr (JArr ys))"
| "py_setitem _ i v = Inl TypeError"

text \<open>\<open>for x in v\<close>: the elements of a list, the characters of a str, the keys of a dict.\<close>

fun py_iter :: "json \<Rightarrow> pyerr + json list" where
  "py_iter (JArr xs) = Inr xs"
| "py_iter (JStr s) = Inr (map (\<lambda>c. JStr [c]) s)"
| "py_iter (JObj kvs) = Inr (map (\<lambda>kv. JStr (fst kv)) kvs)"
| "py_iter _ = Inl TypeError"

text \<open>\<open>s.index(sub)\<close>: \<open>find\<close> that raises \<open>ValueError\<close>. \<open>xs[i] += v\<close> on a list of strings.\<close>

definition py_index :: "string \<Rightarrow> string \<Rightarrow> pyerr + nat" where
  "py_index s sub = (case py_find s sub of None \<Rightarrow> Inl ValueError | Some i \<Rightarrow> Inr i)"

definition py_list_iadd :: "string list \<Rightarrow> int \<Rightarrow> string \<Rightarrow> pyerr + string list" where
  "py_list_iadd xs i v =
     (case py_list_get xs i of Inl e \<Rightarrow> Inl e | Inr x \<Rightarrow> py_list_set xs i (x @ v))"

subsection \<open>\<open>json.dumps\<close> with its defaults\<close>

text \<open>
  \<open>json.dumps(v)\<close>: separators \<open>', '\<close> and \<open>': '\<close>, \<open>ensure_ascii\<close>: inside a string
  \<open>"\<close> and \<open>\\<close> are escaped with a backslash, backspace, form feed, newline,
  carriage return and tab are written \<open>\b \f \n \r \t\<close>, and every other character
  outside the range from space to \<open>~\<close> is written \<open>\u00xx\<close>.
\<close>

function str_nat :: "nat \<Rightarrow> string" where
  "str_nat n =
     (if n < 10 then [''0123456789'' ! n]
      else str_nat (n div 10) @ [''0123456789'' ! (n mod 10)])"
  by pat_completeness auto
termination
  by (relation "measure id") auto

declare str_nat.simps [simp del]

definition str_int :: "int \<Rightarrow> string" where
  "str_int n = (if n < 0 then ''-'' @ str_nat (nat (- n)) else str_nat (nat n))"

definition escape_char :: "char \<Rightarrow> string" where
  "escape_char c =
     (let n = (of_char c :: nat) in
        if n = 34 then [CHR 0x5C, CHR 0x22]
        else if n = 92 then [CHR 0x5C, CHR 0x5C]
        else if n = 8 then [CHR 0x5C, CHR ''b'']
        else if n = 12 then [CHR 0x5C, CHR ''f'']
        else if n = 10 then [CHR 0x5C, CHR ''n'']
        else if n = 13 then [CHR 0x5C, CHR ''r'']
        else if n = 9 then [CHR 0x5C, CHR ''t'']
        else if 32 \<le> n \<and> n \<le> 126 then [c]
        else [CHR 0x5C, CHR ''u'', CHR ''0'', CHR ''0'',
              ''0123456789abcdef'' ! (n div 16), ''0123456789abcdef'' ! (n mod 16)])"

definition dumps_str :: "string \<Rightarrow> string" where
  "dumps_str s = [CHR 0x22] @ concat (map escape_char s) @ [CHR 0x22]"

fun py_join :: "string \<Rightarrow> string list \<Rightarrow> string" where
  "py_join sep [] = []"
| "py_join sep [x] = x"
| "py_join sep (x # y # ys) = x @ sep @ py_join sep (y # ys)"

fun json_dumps :: "json \<Rightarrow> string" where
  "json_dumps JNull = ''null''"
| "json_dumps (JBool b) = (if b then ''true'' else ''false'')"
| "json_dumps (JInt n) = str_int n"
| "json_dumps (JStr s) = dumps_str s"
| "json_dumps (JArr xs) = ''['' @ py_join '', '' (map json_dumps xs) @ '']''"
| "json_dumps (JObj kvs) =
     ''{'' @ py_join '', '' (map (\<lambda>(k, v). dumps_str k @ '': '' @ json_dumps v) kvs) @ ''}''"

section \<open>Protocol messages and the parser state\<close>

text \<open>
  The messages of \<open>vllm.entrypoints.openai.protocol\<close> that the parsers build, as plain
  data: a field that is not set is \<open>None\<close>. \<open>InitialDeltaToolCall\<close> carries the index
  with the generated id and \<open>type = "function"\<close>.
\<close>

datatype function_call = FunctionCall (fc_name: json) (fc_arguments: string)

datatype tool_call = ToolCall (tc_type: string) (tc_function: function_call)

datatype extracted_tool_call_information =
  ExtractedToolCallInformation (tools_called: bool) (tool_calls: "tool_call list")
    (content: "string option")

datatype delta_function_call =
  DeltaFunctionCall (dfc_name: "json option") (dfc_arguments: "string option")

datatype delta_tool_call =
    InitialDeltaToolCall (dtc_index: int)
  | DeltaToolCall (dtc_index: int) (dtc_function: delta_function_call)

datatype delta_message =
  DeltaMessage (dm_content: "string option") (dm_tool_calls: "delta_tool_call list")

text \<open>
  The arguments of \<open>extract_tool_calls_streaming\<close>, and the two permission masks it
  passes to the partial JSON parser: \<open>Allow.ALL\<close> and \<open>Allow.ALL & ~Allow.STR\<close>.
  The partial parser and \<open>json.loads\<close> are libraries; the parsers take them as
  parameters, and a parse that raises is \<open>Inl\<close>.
\<close>

record token_step =
  previous_text :: string
  current_text :: string
  delta_text :: string
  previous_token_ids :: "int list"
  current_token_ids :: "int list"
  delta_token_ids :: "int list"

datatype allow = Allow_ALL | Allow_ALL_without_STR

type_synonym partial_loads = "string \<Rightarrow> allow \<Rightarrow> pyerr + json"

type_synonym json_loads = "string \<Rightarrow> pyerr + json"

text \<open>The fields that \<open>ToolParser.__init__\<close> sets, and their initial values.\<close>

record tool_parser =
  prev_tool_call_arr :: json
  current_tool_id :: int
  current_tool_name_sent :: bool
  current_tool_initial_sent :: bool
  streamed_args_for_tool :: "string list"

definition tool_parser_init :: tool_parser where
  "tool_parser_init =
     \<lparr>prev_tool_call_arr = JArr [], current_tool_id = - 1, current_tool_name_sent = False,
      current_tool_initial_sent = False, streamed_args_for_tool = []\<rparr>"

definition arguments_delta_message :: "int \<Rightarrow> string \<Rightarrow> delta_message" where
  "arguments_delta_message i args =
     DeltaMessage None [DeltaToolCall i (DeltaFunctionCall None (Some args))]"

definition name_delta_message :: "int \<Rightarrow> json \<Rightarrow> delta_message" where
  "name_delta_message i function_name =
     DeltaMessage None [DeltaToolCall i (DeltaFunctionCall (Some function_name) None)]"

definition initial_delta_message :: "int \<Rightarrow> delta_message" where
  "initial_delta_message i = DeltaMessage None [InitialDeltaToolCall i]"

definition content_delta_message :: "string \<Rightarrow> delta_message" where
  "content_delta_message text = DeltaMessage (Some text) []"

section \<open>MistralToolParser\<close>

definition bot_token :: string where
  "bot_token = ''[TOOL_CALLS]''"

definition bot_token_id :: int where
  "bot_token_id = 5"

subsection \<open>\<open>extract_tool_calls\<close>\<close>

text \<open>
  \<open>tool_call_regex.findall(text)[0]\<close> for the pattern \<open>\[{.*?}\]\<close> with \<open>DOTALL\<close>:
  the first match starts at the leftmost \<open>[{\<close> and ends with the first \<open>}]\<close> that
  starts at least two characters later; without one there is no match at all and
  the index raises \<open>IndexError\<close>.
\<close>

definition tool_call_regex_first :: "string \<Rightarrow> pyerr + string" where
  "tool_call_regex_first text =
     (case py_find text ''[{'' of
        None \<Rightarrow> Inl IndexError
      | Some i \<Rightarrow>
          (case py_find (drop (i + 2) text) ''}]'' of
             None \<Rightarrow> Inl IndexError
           | Some j \<Rightarrow> Inr (take (j + 4) (drop i text))))"

text \<open>The list comprehension that builds one \<open>ToolCall\<close> for each element.\<close>

fun build_tool_calls :: "json list \<Rightarrow> pyerr + tool_call list" where
  "build_tool_calls [] = Inr []"
| "build_tool_calls (raw_function_call # rest) =
     (case py_getitem_key raw_function_call ''name'' of
        Inl e \<Rightarrow> Inl e
      | Inr name \<Rightarrow>
          (case py_getitem_key raw_function_call ''arguments'' of
             Inl e \<Rightarrow> Inl e
           | Inr arguments \<Rightarrow>
               (case build_tool_calls rest of
                  Inl e \<Rightarrow> Inl e
                | Inr calls \<Rightarrow>
                    Inr (ToolCall ''function'' (FunctionCall name (json_dumps arguments))
                         # calls))))"

text \<open>The body of the \<open>try\<close>: \<open>Inl\<close> is an exception that leaves it.\<close>

definition mistral_extract_try ::
  "json_loads \<Rightarrow> string \<Rightarrow> pyerr + extracted_tool_call_information" where
  "mistral_extract_try loads model_output =
     (case tool_call_regex_first
             (py_replace (py_replace model_output bot_token []) [CHR 0x27] [CHR 0x22]) of
        Inl e \<Rightarrow> Inl e
      | Inr raw_tool_call \<Rightarrow>
          (case loads raw_tool_call of
             Inl e \<Rightarrow> Inl e
           | Inr function_call_arr \<Rightarrow>
               (case py_iter function_call_arr of
                  Inl e \<Rightarrow> Inl e
                | Inr items \<Rightarrow>
                    (case build_tool_calls items of
                       Inl e \<Rightarrow> Inl e
                     | Inr calls \<Rightarrow>
                         (case py_list_get (py_split model_output bot_token) 0 of
                            Inl e \<Rightarrow> Inl e
                          | Inr content' \<Rightarrow>
                              Inr (ExtractedToolCallInformation True calls
                                     (if length content' > 0 then Some content' else None)))))))"

definition mistral_extract_tool_calls ::
  "json_loads \<Rightarrow> string \<Rightarrow> extracted_tool_call_information" where
  "mistral_extract_tool_calls loads model_output =
     (if \<not> py_in bot_token model_output
      then ExtractedToolCallInformation False [] (Some model_output)
      else (case mistral_extract_try loads model_output of
              Inr info \<Rightarrow> info
            | Inl e \<Rightarrow> ExtractedToolCallInformation False [] (Some model_output)))"

subsection \<open>\<open>extract_tool_calls_streaming\<close>\<close>

text \<open>
  A step returns the parser with the fields it has assigned so far and the delta, or
  \<open>None\<close>. An exception inside the \<open>try\<close> returns \<open>None\<close> and keeps the assignments
  made before it. The two source files hold the same method; they differ in logging
  and in how the test on the marker token is written.

  The branch that starts a new tool (the array is longer than \<open>current_tool_id + 1\<close>):
  \<open>n\<close> is \<open>len(tool_call_arr)\<close>, \<open>current_tool_call\<close> is
  \<open>tool_call_arr[self.current_tool_id]\<close>.
\<close>

definition mistral_reset_for_new_tool :: "tool_parser \<Rightarrow> nat \<Rightarrow> tool_parser" where
  "mistral_reset_for_new_tool self n =
     self\<lparr>current_tool_id := int n - 1, current_tool_name_sent := False,
          current_tool_initial_sent := False,
          streamed_args_for_tool := streamed_args_for_tool self @ [[]]\<rparr>"

definition mistral_start_new_tool ::
  "tool_parser \<Rightarrow> nat \<Rightarrow> json \<Rightarrow> tool_parser \<times> delta_message option" where
  "mistral_start_new_tool self n current_tool_call =
     (if current_tool_id self \<ge> 0 then
        (case py_get current_tool_call ''arguments'' of
           Inl e \<Rightarrow> (self, None)
         | Inr diff \<Rightarrow>
             if truthy diff then
               (case py_list_get (streamed_args_for_tool self) (current_tool_id self) of
                  Inl e \<Rightarrow> (self, None)
                | Inr streamed \<Rightarrow>
                    (let diff = py_replace (json_dumps diff) streamed [];
                         delta = arguments_delta_message (current_tool_id self) diff
                     in case py_list_iadd (streamed_args_for_tool self)
                               (current_tool_id self) diff of
                          Inl e \<Rightarrow> (self, None)
                        | Inr args \<Rightarrow>
                            (mistral_reset_for_new_tool
                               (self\<lparr>streamed_args_for_tool := args\<rparr>) n, Some delta)))
             else (mistral_reset_for_new_tool self n, None))
      else (mistral_reset_for_new_tool self n, None))"

text \<open>
  The end of the arguments branches, shared by both parsers: the delta is built, the
  text is added to \<open>streamed_args_for_tool[current_tool_id]\<close>.
\<close>

definition stream_arguments_delta ::
  "'a tool_parser_scheme \<Rightarrow> string \<Rightarrow> pyerr + 'a tool_parser_scheme \<times> delta_message option" where
  "stream_arguments_delta self args =
     (case py_list_iadd (streamed_args_for_tool self) (current_tool_id self) args of
        Inl e \<Rightarrow> Inl e
      | Inr xs \<Rightarrow>
          Inr (self\<lparr>streamed_args_for_tool := xs\<rparr>,
               Some (arguments_delta_message (current_tool_id self) args)))"

text \<open>
  The four cases on \<open>cur_arguments\<close> and \<open>prev_arguments\<close>; \<open>needle\<close> is the text
  searched in the first arguments chunk (\<open>new_text\<close> for Mistral, \<open>delta_text\<close> for
  Hermes).
\<close>

definition stream_arguments ::
  "'a tool_parser_scheme \<Rightarrow> json \<Rightarrow> json \<Rightarrow> string
     \<Rightarrow> pyerr + 'a tool_parser_scheme \<times> delta_message option" where
  "stream_arguments self cur_arguments prev_arguments needle =
     (if \<not> truthy cur_arguments \<and> \<not> truthy prev_arguments then Inr (self, None)
      else if \<not> truthy cur_arguments \<and> truthy prev_arguments then Inr (self, None)
      else if truthy cur_arguments \<and> \<not> truthy prev_arguments then
        (let cur_arguments_json = json_dumps cur_arguments
         in case py_index cur_arguments_json needle of
              Inl e \<Rightarrow> Inl e
            | Inr i \<Rightarrow>
                stream_arguments_delta self (take (i + length needle) cur_arguments_json))
      else if truthy cur_arguments \<and> truthy prev_arguments then
        stream_arguments_delta self
          (extract_intermediate_diff (json_dumps cur_arguments) (json_dumps prev_arguments))
      else Inr (self, None))"

text \<open>
  The branch that updates the current tool: the initial chunk, then the name, then
  the arguments; at its end \<open>prev_tool_call_arr\<close> becomes \<open>tool_call_arr\<close>.
\<close>

definition mistral_update_tool ::
  "tool_parser \<Rightarrow> json \<Rightarrow> json \<Rightarrow> string \<Rightarrow> tool_parser \<times> delta_message option" where
  "mistral_update_tool self tool_call_arr current_tool_call delta_text' =
     (if \<not> current_tool_initial_sent self then
        (self\<lparr>current_tool_initial_sent := True, prev_tool_call_arr := tool_call_arr\<rparr>,
         Some (initial_delta_message (current_tool_id self)))
      else if \<not> current_tool_name_sent self then
        (case py_get current_tool_call ''name'' of
           Inl e \<Rightarrow> (self, None)
         | Inr function_name \<Rightarrow>
             if truthy function_name then
               (self\<lparr>current_tool_name_sent := True, prev_tool_call_arr := tool_call_arr\<rparr>,
                Some (name_delta_message (current_tool_id self) function_name))
             else (self\<lparr>prev_tool_call_arr := tool_call_arr\<rparr>, None))
      else
        (case py_getitem (prev_tool_call_arr self) (current_tool_id self) of
           Inl e \<Rightarrow> (self, None)
         | Inr prev_tool_call \<Rightarrow>
             (case py_get prev_tool_call ''arguments'' of
                Inl e \<Rightarrow> (self, None)
              | Inr prev_arguments \<Rightarrow>
                  (case py_get current_tool_call ''arguments'' of
                     Inl e \<Rightarrow> (self, None)
                   | Inr cur_arguments \<Rightarrow>
                       (let new_text = py_replace delta_text' [CHR 0x27] [CHR 0x22]
                        in case stream_arguments self cur_arguments prev_arguments new_text of
                             Inl e \<Rightarrow> (self, None)
                           | Inr (self', delta) \<Rightarrow>
                               (self'\<lparr>prev_tool_call_arr := tool_call_arr\<rparr>, delta))))))"

definition mistral_extract_tool_calls_streaming ::
  "partial_loads \<Rightarrow> tool_parser \<Rightarrow> token_step \<Rightarrow> tool_parser \<times> delta_message option" where
  "mistral_extract_tool_calls_streaming loads self step =
     (if bot_token_id \<notin> set (current_token_ids step) then
        (self, Some (content_delta_message (delta_text step)))
      else if bot_token_id \<in> set (delta_token_ids step) \<and> length (delta_token_ids step) = 1
      then (self, None)
      else
        (let flags = (if current_tool_name_sent self then Allow_ALL else Allow_ALL_without_STR)
         in case py_list_get (py_split (current_text step) bot_token) 1 of
              Inl e \<Rightarrow> (self, None)
            | Inr tool_call_message_portion \<Rightarrow>
                (let parsable_arr = py_replace tool_call_message_portion [CHR 0x27] [CHR 0x22]
                 in case loads parsable_arr flags of
                      Inl e \<Rightarrow> (self, None)
                    | Inr tool_call_arr \<Rightarrow>
                        (case py_getitem tool_call_arr (current_tool_id self) of
                           Inl e \<Rightarrow> (self, None)
                         | Inr current_tool_call \<Rightarrow>
                             (case py_len tool_call_arr of
                                Inl e \<Rightarrow> (self, None)
                              | Inr n \<Rightarrow>
                                  if n > 0 \<and> int n > current_tool_id self + 1 then
                                    mistral_start_new_tool self n current_tool_call
                                  else if int n - 1 = current_tool_id self
                                          \<and> current_tool_id self \<ge> 0 then
                                    mistral_update_tool self tool_call_arr current_tool_call
                                      (delta_text step)
                                  else (self, None))))))"

section \<open>Hermes2ProToolParser\<close>

text \<open>
  The tokenizer is a library object; the constructor reads its \<open>vocab\<close>, a dict from
  token strings to ids, and tests its truth value, which for a tokenizer is that of
  its length (an empty vocabulary is false).
\<close>

datatype tokenizer = Tokenizer (vocab: "(string \<times> int) list")

record hermes2pro_tool_parser = tool_parser +
  tool_call_start_token_id :: int
  tool_call_end_token_id :: int

definition tool_call_start_token :: string where
  "tool_call_start_token = ''<tool_call>''"

definition tool_call_end_token :: string where
  "tool_call_end_token = ''</tool_call>''"

text \<open>
  \<open>Hermes2ProToolParser.__init__\<close>: \<open>ValueError\<close> without a tokenizer, \<open>KeyError\<close>
  from \<open>vocab[...]\<close> for a tag that is not in the vocabulary, \<open>RuntimeError\<close> when
  \<open>not self.tool_call_start_token_id or not self.tool_call_end_token_id\<close>; \<open>not n\<close>
  on an int is \<open>n == 0\<close>.
\<close>

definition hermes_init :: "tokenizer option \<Rightarrow> pyerr + hermes2pro_tool_parser" where
  "hermes_init model_tokenizer =
     (case model_tokenizer of
        None \<Rightarrow> Inl ValueError
      | Some tok \<Rightarrow>
          if vocab tok = [] then Inl ValueError
          else
            (case map_of (vocab tok) ''<tool_call>'' of
               None \<Rightarrow> Inl KeyError
             | Some start_id \<Rightarrow>
                 (case map_of (vocab tok) ''</tool_call>'' of
                    None \<Rightarrow> Inl KeyError
                  | Some end_id \<Rightarrow>
                      if start_id = 0 \<or> end_id = 0 then Inl RuntimeError
                      else Inr \<lparr>prev_tool_call_arr = JArr [], current_tool_id = - 1,
                                current_tool_name_sent = False,
                                current_tool_initial_sent = False,
                                streamed_args_for_tool = [],
                                tool_call_start_token_id = start_id,
                                tool_call_end_token_id = end_id\<rparr>)))"

subsection \<open>\<open>extract_tool_calls_streaming\<close>\<close>

text \<open>
  The branch that closes the current tool call. With arguments it returns the
  delta at once. Without, the method goes on to read \<open>tool_call_portion\<close>, which no
  branch has assigned: \<open>UnboundLocalError\<close>, caught, \<open>None\<close>.
\<close>

definition hermes_close_tool ::
  "hermes2pro_tool_parser \<Rightarrow> hermes2pro_tool_parser \<times> delta_message option" where
  "hermes_close_tool self =
     (case py_getitem (prev_tool_call_arr self) (current_tool_id self) of
        Inl e \<Rightarrow> (self, None)
      | Inr prev_tool_call \<Rightarrow>
          (case py_get prev_tool_call ''arguments'' of
             Inl e \<Rightarrow> (self, None)
           | Inr diff \<Rightarrow>
               if truthy diff then
                 (case py_list_get (streamed_args_for_tool self) (current_tool_id self) of
                    Inl e \<Rightarrow> (self, None)
                  | Inr streamed \<Rightarrow>
                      (self,
                       Some (arguments_delta_message (current_tool_id self)
                               (py_replace (json_dumps diff) streamed []))))
               else (self, None)))"

text \<open>
  The arguments of an open tool call: a dummy \<open>{}\<close> is pushed when
  \<open>prev_tool_call_arr\<close> is too short, the four cases follow, and the current call is
  saved into \<open>prev_tool_call_arr\<close>.
\<close>

definition hermes_save_tool_call ::
  "hermes2pro_tool_parser \<Rightarrow> json \<Rightarrow> pyerr + hermes2pro_tool_parser" where
  "hermes_save_tool_call self current_tool_call =
     (case py_len (prev_tool_call_arr self) of
        Inl e \<Rightarrow> Inl e
      | Inr n \<Rightarrow>
          (case (if current_tool_id self = int n - 1
                 then py_setitem (prev_tool_call_arr self) (current_tool_id self)
                        current_tool_call
                 else py_append (prev_tool_call_arr self) current_tool_call) of
             Inl e \<Rightarrow> Inl e
           | Inr arr \<Rightarrow> Inr (self\<lparr>prev_tool_call_arr := arr\<rparr>)))"

definition hermes_stream_tool_arguments ::
  "hermes2pro_tool_parser \<Rightarrow> json \<Rightarrow> string
     \<Rightarrow> hermes2pro_tool_parser \<times> delta_message option" where
  "hermes_stream_tool_arguments self current_tool_call delta_text' =
     (case py_len (prev_tool_call_arr self) of
        Inl e \<Rightarrow> (self, None)
      | Inr n \<Rightarrow>
          (case (if int n \<le> current_tool_id self
                 then py_append (prev_tool_call_arr self) (JObj [])
                 else Inr (prev_tool_call_arr self)) of
             Inl e \<Rightarrow> (self, None)
           | Inr arr \<Rightarrow>
               (let self = self\<lparr>prev_tool_call_arr := arr\<rparr>
                in case py_getitem (prev_tool_call_arr self) (current_tool_id self) of
                     Inl e \<Rightarrow> (self, None)
                   | Inr prev_tool_call \<Rightarrow>
                       (case py_get prev_tool_call ''arguments'' of
                          Inl e \<Rightarrow> (self, None)
                        | Inr prev_arguments \<Rightarrow>
                            (case py_get current_tool_call ''arguments'' of
                               Inl e \<Rightarrow> (self, None)
                             | Inr cur_arguments \<Rightarrow>
                                 (case stream_arguments self cur_arguments prev_arguments
                                         delta_text' of
                                    Inl e \<Rightarrow> (self, None)
                                  | Inr (self', delta) \<Rightarrow>
                                      (case hermes_save_tool_call self' current_tool_call of
                                         Inl e \<Rightarrow> (self', None)
                                       | Inr self'' \<Rightarrow> (self'', delta))))))))"

text \<open>
  What follows the new-tool and the update branches: the partial parse of
  \<open>tool_call_portion\<close> (\<open>None\<close> when the portion is \<open>None\<close> or empty), then the
  initial chunk, the name, or the arguments. \<open>text_portion\<close> is \<open>None\<close> on every
  path, so a missing portion gives no delta.
\<close>

definition hermes_emit ::
  "partial_loads \<Rightarrow> allow \<Rightarrow> hermes2pro_tool_parser \<Rightarrow> string option \<Rightarrow> string
     \<Rightarrow> hermes2pro_tool_parser \<times> delta_message option" where
  "hermes_emit loads flags self tool_call_portion delta_text' =
     (case (case tool_call_portion of
              None \<Rightarrow> Inr JNull
            | Some portion \<Rightarrow> if portion = [] then Inr JNull else loads portion flags) of
        Inl e \<Rightarrow> (self, None)
      | Inr current_tool_call \<Rightarrow>
          if \<not> current_tool_initial_sent self then
            (self\<lparr>current_tool_initial_sent := True\<rparr>,
             Some (initial_delta_message (current_tool_id self)))
          else if \<not> current_tool_name_sent self then
            (case py_get current_tool_call ''name'' of
               Inl e \<Rightarrow> (self, None)
             | Inr function_name \<Rightarrow>
                 if truthy function_name then
                   (self\<lparr>current_tool_name_sent := True\<rparr>,
                    Some (name_delta_message (current_tool_id self) function_name))
                 else (self, None))
          else
            (case tool_call_portion of
               None \<Rightarrow> (self, None)
             | Some portion \<Rightarrow> hermes_stream_tool_arguments self current_tool_call delta_text'))"

definition hermes_extract_tool_calls_streaming ::
  "partial_loads \<Rightarrow> hermes2pro_tool_parser \<Rightarrow> token_step
     \<Rightarrow> hermes2pro_tool_parser \<times> delta_message option" where
  "hermes_extract_tool_calls_streaming loads self step =
     (if tool_call_start_token_id self \<notin> set (current_token_ids step) then
        (self, Some (content_delta_message (delta_text step)))
      else
        (let prev_tool_start_count =
               count_list (previous_token_ids step) (tool_call_start_token_id self);
             prev_tool_end_count =
               count_list (previous_token_ids step) (tool_call_end_token_id self);
             cur_tool_start_count =
               count_list (current_token_ids step) (tool_call_start_token_id self);
             cur_tool_end_count =
               count_list (current_token_ids step) (tool_call_end_token_id self)
         in if cur_tool_start_count = cur_tool_end_count
               \<and> prev_tool_end_count = cur_tool_end_count then
              (self, Some (content_delta_message (delta_text step)))
            else
              (let flags = (if current_tool_name_sent self then Allow_ALL
                            else Allow_ALL_without_STR)
               in if cur_tool_start_count > cur_tool_end_count
                     \<and> cur_tool_start_count > prev_tool_start_count then
                    (case (if length (delta_token_ids step) > 1
                           then map_sum id Some
                                  (py_list_get (py_split (current_text step)
                                                  tool_call_start_token) (- 1))
                           else Inr None) of
                       Inl e \<Rightarrow> (self, None)
                     | Inr tool_call_portion \<Rightarrow>
                         hermes_emit loads flags
                           (self\<lparr>current_tool_id := current_tool_id self + 1,
                                 current_tool_name_sent := False,
                                 current_tool_initial_sent := False,
                                 streamed_args_for_tool := streamed_args_for_tool self @ [[]]\<rparr>)
                           tool_call_portion (delta_text step))
                  else if cur_tool_start_count > cur_tool_end_count
                          \<and> cur_tool_start_count = prev_tool_start_count then
                    (case py_list_get (py_split (current_text step) tool_call_start_token)
                            (- 1) of
                       Inl e \<Rightarrow> (self, None)
                     | Inr tool_call_portion \<Rightarrow>
                         hermes_emit loads flags self (Some tool_call_portion)
                           (delta_text step))
                  else if cur_tool_start_count = cur_tool_end_count
                          \<and> cur_tool_end_count > prev_tool_end_count then
                    hermes_close_tool self
                  else (self, None))))"

section \<open>OpenAIServingChat\<close>

text \<open>
  \<open>request.tool_choice\<close>: absent, one of the strings \<open>"none"\<close>, \<open>"auto"\<close>,
  \<open>"required"\<close>, or a named function.
\<close>

datatype tool_choice =
  ToolChoiceAbsent | ToolChoiceStr string | ChatCompletionNamedToolChoiceParam string

text \<open>
  The validation of the tool options in \<open>create_chat_completion\<close>, before the request
  id is made and the engine is called: \<open>Some message\<close> is the error response it
  returns, \<open>None\<close> lets the request through. The tests are the source's:
  \<open>if request.tool_choice != 'required'\<close>, then
  \<open>if request.tool_choice == 'auto' and not (self.enable_auto_tools and
  self.tool_parser is not None)\<close>.
\<close>

definition tool_choice_validation :: "bool \<Rightarrow> bool \<Rightarrow> tool_choice \<Rightarrow> string option" where
  \<open>tool_choice_validation enable_auto_tools has_tool_parser tool_choice' =
     (if tool_choice' \<noteq> ToolChoiceStr ''required'' then
        Some ''tool_choice = "required" is not supported!''
      else if tool_choice' = ToolChoiceStr ''auto''
              \<and> \<not> (enable_auto_tools \<and> has_tool_parser) then
        Some ''"auto" tool choice requires --enable-auto-tool-choice and --tool-parser to be set''
      else None)\<close>

text \<open>
  The \<open>finish_reason\<close> of the terminal chunk in \<open>chat_completion_stream_generator\<close>:
  \<open>output.finish_reason if not (tool_parser and len(tool_parser.prev_tool_call_arr))
  else 'tool_calls'\<close>. A parser object is true when it is not \<open>None\<close>.
\<close>

definition terminal_finish_reason ::
  "'a tool_parser_scheme option \<Rightarrow> string \<Rightarrow> pyerr + string" where
  "terminal_finish_reason tool_parser' finish_reason =
     (case tool_parser' of
        None \<Rightarrow> Inr finish_reason
      | Some parser \<Rightarrow>
          (case py_len (prev_tool_call_arr parser) of
             Inl e \<Rightarrow> Inl e
           | Inr n \<Rightarrow> Inr (if \<not> (n \<noteq> 0) then finish_reason else ''tool_calls'')))"

text \<open>
  The two conditions the terminal chunk is described by: the parser is in use and
  has a non-empty \<open>prev_tool_call_arr\<close>; and \<open>len\<close> of that field is defined (it is
  for a list or a str, which is all that either parser stores there).
\<close>

definition parser_has_tool_calls :: "'a tool_parser_scheme option \<Rightarrow> bool" where
  "parser_has_tool_calls tool_parser' =
     (case tool_parser' of
        None \<Rightarrow> False
      | Some parser \<Rightarrow>
          (case py_len (prev_tool_call_arr parser) of Inl e \<Rightarrow> False | Inr n \<Rightarrow> 0 < n))"

definition parser_arr_sized :: "'a tool_parser_scheme option \<Rightarrow> bool" where
  "parser_arr_sized tool_parser' =
     (case tool_parser' of
        None \<Rightarrow> True
      | Some parser \<Rightarrow> \<not> isl (py_len (prev_tool_call_arr parser)))"

section \<open>The invariant on \<open>streamed_args_for_tool\<close> and the inputs that break it\<close>

text \<open>\<open>len(streamed_args_for_tool) == current_tool_id + 1\<close>.\<close>

definition streamed_args_aligned :: "'a tool_parser_scheme \<Rightarrow> bool" where
  "streamed_args_aligned self =
     (int (length (streamed_args_for_tool self)) = current_tool_id self + 1)"

text \<open>
  A Mistral stream whose first step after the marker carries the whole array of two
  tool calls. The text after the marker is complete JSON once the quotes are
  replaced, so the partial parser returns the list of the two objects.
\<close>

definition two_tools_loads :: partial_loads where
  \<open>two_tools_loads s flags =
     (if s = ''[{"name": "f", "arguments": {}}, {"name": "g", "arguments": {}}]''
      then Inr (JArr [JObj [(''name'', JStr ''f''), (''arguments'', JObj [])],
                      JObj [(''name'', JStr ''g''), (''arguments'', JObj [])]])
      else Inl JSONDecodeError)\<close>

definition two_tools_step :: token_step where
  \<open>two_tools_step =
     \<lparr>previous_text = [],
      current_text = ''[TOOL_CALLS][{'name': 'f', 'arguments': {}}, {'name': 'g', 'arguments': {}}]'',
      delta_text = ''[TOOL_CALLS][{'name': 'f', 'arguments': {}}, {'name': 'g', 'arguments': {}}]'',
      previous_token_ids = [], current_token_ids = [5, 100, 101],
      delta_token_ids = [5, 100, 101]\<rparr>\<close>

text \<open>
  A Mistral parser in the middle of the first tool's arguments, with \<open>{"k": \<close>
  streamed so far, and the step that completes the first call and brings the second:
  the streamed text occurs twice in the serialization \<open>{"k": {"k": 1}}\<close>.
\<close>

definition nested_args_loads :: partial_loads where
  \<open>nested_args_loads s flags =
     (if s = ''[{"name": "f", "arguments": {"k": {"k": 1}}}, {"name": "g", "arguments": {}}]''
      then Inr (JArr [JObj [(''name'', JStr ''f''),
                            (''arguments'', JObj [(''k'', JObj [(''k'', JInt 1)])])],
                      JObj [(''name'', JStr ''g''), (''arguments'', JObj [])]])
      else Inl JSONDecodeError)\<close>

definition nested_args_parser :: tool_parser where
  \<open>nested_args_parser =
     \<lparr>prev_tool_call_arr =
        JArr [JObj [(''name'', JStr ''f''), (''arguments'', JObj [(''k'', JObj [])])]],
      current_tool_id = 0, current_tool_name_sent = True,
      current_tool_initial_sent = True, streamed_args_for_tool = [''{"k": '']\<rparr>\<close>

definition nested_args_step :: token_step where
  \<open>nested_args_step =
     \<lparr>previous_text = ''[TOOL_CALLS][{'name': 'f', 'arguments': {'k': {'k': '',
      current_text = ''[TOOL_CALLS][{'name': 'f', 'arguments': {'k': {'k': 1}}}, {'name': 'g', 'arguments': {}}]'',
      delta_text = ''1}}}, {'name': 'g', 'arguments': {}}]'',
      previous_token_ids = [5, 100, 101], current_token_ids = [5, 100, 101, 102, 103],
      delta_token_ids = [102, 103]\<rparr>\<close>

text \<open>
  A Hermes parser that has streamed \<open>{"x": 1\<close> of the arguments \<open>{"x": 1}\<close>, and the
  step in which the end tag arrives.
\<close>

definition closing_parser :: hermes2pro_tool_parser where
  \<open>closing_parser =
     \<lparr>prev_tool_call_arr =
        JArr [JObj [(''name'', JStr ''a''), (''arguments'', JObj [(''x'', JInt 1)])]],
      current_tool_id = 0, current_tool_name_sent = True,
      current_tool_initial_sent = True, streamed_args_for_tool = [''{"x": 1''],
      tool_call_start_token_id = 32000, tool_call_end_token_id = 32001\<rparr>\<close>

definition closing_step :: token_step where
  \<open>closing_step =
     \<lparr>previous_text = ''<tool_call>{"name": "a", "arguments": {"x": 1}}'',
      current_text = ''<tool_call>{"name": "a", "arguments": {"x": 1}}</tool_call>'',
      delta_text = ''</tool_call>'',
      previous_token_ids = [32000, 100, 101, 102],
      current_token_ids = [32000, 100, 101, 102, 32001],
      delta_token_ids = [32001]\<rparr>\<close>

section \<open>Properties of the diff utilities\<close>

lemma find_common_prefix_loop_take:
  "i \<le> min (length s1) (length s2) \<Longrightarrow> pre = take i s1 \<Longrightarrow> take i s1 = take i s2 \<Longrightarrow>
   \<exists>k. k \<le> min (length s1) (length s2) \<and> find_common_prefix_loop s1 s2 i pre = take k s1
     \<and> take k s1 = take k s2 \<and> (k < min (length s1) (length s2) \<longrightarrow> s1 ! k \<noteq> s2 ! k)"
proof (induction s1 s2 i pre rule: find_common_prefix_loop.induct)
  case (1 s1 s2 i pre)
  show ?case
  proof (cases "i < min (length s1) (length s2)")
    case False
    with "1.prems" show ?thesis
      by (subst find_common_prefix_loop.simps) (rule exI [of _ i], simp)
  next
    case in_range: True
    show ?thesis
    proof (cases "s1 ! i = s2 ! i")
      case False
      with in_range "1.prems" show ?thesis
        by (subst find_common_prefix_loop.simps) (rule exI [of _ i], simp)
    next
      case True
      from in_range have "take (Suc i) s1 = take i s1 @ [s1 ! i]"
        and "take (Suc i) s2 = take i s2 @ [s2 ! i]"
        by (simp_all add: take_Suc_conv_app_nth)
      with True "1.prems" have "pre @ [s1 ! i] = take (i + 1) s1"
        and "take (i + 1) s1 = take (i + 1) s2"
        by simp_all
      with "1.IH" [OF in_range True] in_range
      have "\<exists>k. k \<le> min (length s1) (length s2)
            \<and> find_common_prefix_loop s1 s2 (i + 1) (pre @ [s1 ! i]) = take k s1
            \<and> take k s1 = take k s2 \<and> (k < min (length s1) (length s2) \<longrightarrow> s1 ! k \<noteq> s2 ! k)"
        by simp
      with in_range True show ?thesis
        by (subst find_common_prefix_loop.simps) simp
    qed
  qed
qed

lemma find_common_prefix_take:
  "\<exists>k. k \<le> min (length a) (length b) \<and> find_common_prefix a b = take k a
     \<and> take k a = take k b \<and> (k < min (length a) (length b) \<longrightarrow> a ! k \<noteq> b ! k)"
  unfolding find_common_prefix_def
  by (rule find_common_prefix_loop_take) simp_all

lemma find_common_suffix_loop_drop:
  "1 \<le> i \<Longrightarrow> i - 1 \<le> min (length s1) (length s2) \<Longrightarrow>
   suf = drop (length s1 - (i - 1)) s1 \<Longrightarrow>
   drop (length s1 - (i - 1)) s1 = drop (length s2 - (i - 1)) s2 \<Longrightarrow>
   list_all (\<lambda>c. \<not> isalnum c) suf \<Longrightarrow>
   \<exists>k. k \<le> min (length s1) (length s2)
     \<and> find_common_suffix_loop s1 s2 i suf = drop (length s1 - k) s1
     \<and> drop (length s1 - k) s1 = drop (length s2 - k) s2
     \<and> list_all (\<lambda>c. \<not> isalnum c) (find_common_suffix_loop s1 s2 i suf)
     \<and> (k < min (length s1) (length s2) \<longrightarrow>
          \<not> (s1 ! (length s1 - Suc k) = s2 ! (length s2 - Suc k)
             \<and> \<not> isalnum (s1 ! (length s1 - Suc k))))"
proof (induction s1 s2 i suf rule: find_common_suffix_loop.induct)
  case (1 s1 s2 i suf)
  let ?c = "s1 ! (length s1 - i)"
  show ?case
  proof (cases "i < min (length s1) (length s2) + 1")
    case False
    have r: "find_common_suffix_loop s1 s2 i suf = suf"
      using False by (subst find_common_suffix_loop.simps) simp
    have "\<not> i - 1 < min (length s1) (length s2)"
      using False by linarith
    with "1.prems"(2-5) show ?thesis
      unfolding r by blast
  next
    case in_range: True
    have i1: "Suc (i - 1) = i"
      using "1.prems"(1) by simp
    show ?thesis
    proof (cases "?c = s2 ! (length s2 - i) \<and> \<not> isalnum ?c")
      case False
      have r: "find_common_suffix_loop s1 s2 i suf = suf"
        using False in_range by (subst find_common_suffix_loop.simps) auto
      have "\<not> (s1 ! (length s1 - Suc (i - 1)) = s2 ! (length s2 - Suc (i - 1))
              \<and> \<not> isalnum (s1 ! (length s1 - Suc (i - 1))))"
        using False unfolding i1 .
      with "1.prems"(2-5) show ?thesis
        unfolding r by blast
    next
      case True
      have r: "find_common_suffix_loop s1 s2 i suf
               = find_common_suffix_loop s1 s2 (i + 1) (?c # suf)"
        using True in_range by (subst find_common_suffix_loop.simps) auto
      from in_range "1.prems"(1) have lt: "length s1 - i < length s1" "length s2 - i < length s2"
        by simp_all
      have suc: "Suc (length s1 - i) = length s1 - (i - 1)"
                "Suc (length s2 - i) = length s2 - (i - 1)"
        using in_range "1.prems"(1) by simp_all
      have d1: "drop (length s1 - i) s1 = ?c # drop (length s1 - (i - 1)) s1"
        using Cons_nth_drop_Suc [OF lt(1)] unfolding suc by simp
      have d2: "drop (length s2 - i) s2 = s2 ! (length s2 - i) # drop (length s2 - (i - 1)) s2"
        using Cons_nth_drop_Suc [OF lt(2)] unfolding suc by simp
      have e: "i + 1 - 1 = i" by simp
      have a: "?c # suf = drop (length s1 - (i + 1 - 1)) s1"
        unfolding e d1 using "1.prems"(3) by simp
      have b: "drop (length s1 - (i + 1 - 1)) s1 = drop (length s2 - (i + 1 - 1)) s2"
        unfolding e d1 d2 using "1.prems"(4) True by simp
      have c: "list_all (\<lambda>c. \<not> isalnum c) (?c # suf)"
        using True "1.prems"(5) by auto
      have "1 \<le> i + 1" "i + 1 - 1 \<le> min (length s1) (length s2)"
        using in_range by auto
      from "1.IH" [OF in_range True this a b c] show ?thesis
        unfolding r .
    qed
  qed
qed

lemma find_common_suffix_drop:
  "\<exists>k. k \<le> min (length a) (length b)
     \<and> find_common_suffix a b = drop (length a - k) a
     \<and> drop (length a - k) a = drop (length b - k) b
     \<and> list_all (\<lambda>c. \<not> isalnum c) (find_common_suffix a b)
     \<and> (k < min (length a) (length b) \<longrightarrow>
          \<not> (a ! (length a - Suc k) = b ! (length b - Suc k)
             \<and> \<not> isalnum (a ! (length a - Suc k))))"
  unfolding find_common_suffix_def
  by (rule find_common_suffix_loop_drop) simp_all

lemma find_common_prefix_prefix:
  "prefix (find_common_prefix a b) a \<and> prefix (find_common_prefix a b) b"
proof -
  obtain k where p: "find_common_prefix a b = take k a" and pb: "take k a = take k b"
    using find_common_prefix_take [of a b] by blast
  have "prefix (find_common_prefix a b) a"
    unfolding p by (rule take_is_prefix)
  moreover have "prefix (find_common_prefix a b) b"
    unfolding p pb by (rule take_is_prefix)
  ultimately show ?thesis ..
qed

lemma find_common_suffix_suffix:
  "suffix (find_common_suffix a b) a \<and> suffix (find_common_suffix a b) b"
proof -
  obtain j where s: "find_common_suffix a b = drop (length a - j) a"
      and sb: "drop (length a - j) a = drop (length b - j) b"
    using find_common_suffix_drop [of a b] by blast
  have "suffix (find_common_suffix a b) a"
    unfolding s by (rule suffix_drop)
  moreover have "suffix (find_common_suffix a b) b"
    unfolding s sb by (rule suffix_drop)
  ultimately show ?thesis ..
qed

text \<open>
  C7. For all strings \<open>a\<close> and \<open>b\<close>: \<open>find_common_prefix a b\<close> is a prefix of both and
  no longer string is a prefix of both; \<open>find_common_suffix a b\<close> is a suffix of both,
  holds no alphanumeric character, and is maximal under the stopping rule: it is all
  of \<open>a\<close> or all of \<open>b\<close> (a string is exhausted), or the next characters from the end
  differ, or the shared next character is alphanumeric.
\<close>

theorem find_common_prefix_suffix_maximal:
  "prefix (find_common_prefix a b) a \<and> prefix (find_common_prefix a b) b
   \<and> (\<forall>q. prefix q a \<and> prefix q b \<longrightarrow> length q \<le> length (find_common_prefix a b))
   \<and> suffix (find_common_suffix a b) a \<and> suffix (find_common_suffix a b) b
   \<and> list_all (\<lambda>c. \<not> isalnum c) (find_common_suffix a b)
   \<and> (let n = length (find_common_suffix a b) in
        n = length a \<or> n = length b
        \<or> a ! (length a - Suc n) \<noteq> b ! (length b - Suc n)
        \<or> isalnum (a ! (length a - Suc n)))"
proof -
  obtain k where k: "k \<le> min (length a) (length b)"
      and p: "find_common_prefix a b = take k a"
      and stop: "k < min (length a) (length b) \<longrightarrow> a ! k \<noteq> b ! k"
    using find_common_prefix_take [of a b] by blast
  have lp: "length (find_common_prefix a b) = k"
    using k p by simp
  have p3: "\<forall>q. prefix q a \<and> prefix q b \<longrightarrow> length q \<le> length (find_common_prefix a b)"
  proof (intro allI impI)
    fix q assume q: "prefix q a \<and> prefix q b"
    show "length q \<le> length (find_common_prefix a b)"
    proof (rule ccontr)
      assume "\<not> length q \<le> length (find_common_prefix a b)"
      then have kq: "k < length q" using lp by simp
      from q obtain r1 r2 where a: "a = q @ r1" and b: "b = q @ r2"
        by (auto simp: prefix_def)
      from kq a b have "k < min (length a) (length b)" by simp
      with stop have "a ! k \<noteq> b ! k" by simp
      moreover have "a ! k = q ! k" "b ! k = q ! k"
        using kq a b by (simp_all add: nth_append)
      ultimately show False by simp
    qed
  qed
  obtain j where j: "j \<le> min (length a) (length b)"
      and s: "find_common_suffix a b = drop (length a - j) a"
      and na: "list_all (\<lambda>c. \<not> isalnum c) (find_common_suffix a b)"
      and sstop: "j < min (length a) (length b) \<longrightarrow>
          \<not> (a ! (length a - Suc j) = b ! (length b - Suc j)
             \<and> \<not> isalnum (a ! (length a - Suc j)))"
    using find_common_suffix_drop [of a b] by blast
  have ls: "length (find_common_suffix a b) = j"
    using j s by simp
  have s3: "j = length a \<or> j = length b
        \<or> a ! (length a - Suc j) \<noteq> b ! (length b - Suc j)
        \<or> isalnum (a ! (length a - Suc j))"
  proof (cases "j < min (length a) (length b)")
    case True
    with sstop show ?thesis by blast
  next
    case False
    with j have "j = min (length a) (length b)" by linarith
    then show ?thesis by (auto simp: min_def split: if_splits)
  qed
  show ?thesis
    using find_common_prefix_prefix [of a b] p3 find_common_suffix_suffix [of a b] na s3
    unfolding Let_def ls by blast
qed

theorem find_common_prefix_suffix_maximal_witness:
  \<open>prefix ''{"fruit'' ''{"fruit": "ap"}'' \<and> prefix ''{"fruit'' ''{"fruit": "apple"}''
   \<and> length ''{"fruit'' \<le> length (find_common_prefix ''{"fruit": "ap"}'' ''{"fruit": "apple"}'')
   \<and> prefix (find_common_prefix ''{"fruit": "ap"}'' ''{"fruit": "apple"}'') ''{"fruit": "apple"}''
   \<and> suffix (find_common_suffix ''{"fruit": "ap"}'' ''{"fruit": "apple"}'') ''{"fruit": "apple"}''\<close>
proof -
  have h: \<open>prefix ''{"fruit'' ''{"fruit": "ap"}'' \<and> prefix ''{"fruit'' ''{"fruit": "apple"}''\<close>
    by simp
  from find_common_prefix_suffix_maximal
    [of \<open>''{"fruit": "ap"}''\<close> \<open>''{"fruit": "apple"}''\<close>] h
  show ?thesis by blast
qed

lemma py_find_prefix: "prefix sub s \<Longrightarrow> py_find s sub = Some 0"
  by (cases s) simp_all

lemma py_replace_first_prefix: "py_replace_first (p @ m) p [] = m"
  by (simp add: py_replace_first_def py_find_prefix)

lemma py_replace_first_absent: "length s < length sub \<Longrightarrow> py_replace_first s sub new = s"
  using py_find_bound [of s sub]
  by (cases "py_find s sub") (auto simp: py_replace_first_def)

lemma strip_trailing: "suffix s x \<Longrightarrow> rev (py_replace_first (rev x) (rev s) []) = take (length x - length s) x"
proof -
  assume "suffix s x"
  then obtain m where x: "x = m @ s" by (auto simp: suffix_def)
  have "py_replace_first (rev s @ rev m) (rev s) [] = rev m"
    by (rule py_replace_first_prefix)
  then show ?thesis using x by simp
qed

text \<open>
  C6, as stated: with \<open>s\<close> the common suffix, \<open>old'\<close> the old string without its
  trailing \<open>s\<close> and \<open>p\<close> the common prefix of \<open>cur\<close> and \<open>old'\<close>, the string
  \<open>p @ extract_intermediate_diff cur old @ s\<close> is \<open>cur\<close>. It fails when \<open>p\<close> and \<open>s\<close>
  overlap inside \<open>cur\<close>: the prefix is then not found in what is left of \<open>cur\<close> and
  nothing is removed.
\<close>

theorem extract_intermediate_diff_overlap_counterexample:
  \<open>\<not> (let cur = ''{"a": ""}''; old = ''{"a": "", "b": ""}'';
            s = find_common_suffix cur old;
            old' = take (length old - length s) old;
            p = find_common_prefix cur old'
        in p @ extract_intermediate_diff cur old @ s = cur)\<close>
  by code_simp

text \<open>
  C6, amended: when \<open>p\<close> and \<open>s\<close> fit side by side in \<open>cur\<close>
  (\<open>length p + length s \<le> length cur\<close>), \<open>p @ diff @ s = cur\<close>; when they overlap,
  the diff is \<open>cur\<close> without its trailing \<open>s\<close>, so \<open>diff @ s = cur\<close>.
\<close>

theorem extract_intermediate_diff_reconstructs:
  "(let s = find_common_suffix cur old;
        old' = take (length old - length s) old;
        p = find_common_prefix cur old';
        d = extract_intermediate_diff cur old
    in (length p + length s \<le> length cur \<longrightarrow> p @ d @ s = cur)
     \<and> (length cur < length p + length s \<longrightarrow> d @ s = cur))"
proof -
  define s where "s = find_common_suffix cur old"
  define old' where "old' = take (length old - length s) old"
  define p where "p = find_common_prefix cur old'"
  define m0 where "m0 = take (length cur - length s) cur"
  have sc: "suffix s cur" and so: "suffix s old"
    using find_common_suffix_suffix [of cur old] unfolding s_def by blast+
  have pc: "prefix p cur"
    using find_common_prefix_prefix [of cur old'] unfolding p_def by blast
  from sc have cur: "cur = m0 @ s"
    unfolding m0_def by (auto simp: suffix_def)
  have old_eq: "rev (py_replace_first (rev old) (rev s) []) = old'"
    unfolding old'_def using so by (rule strip_trailing)
  have d0: "(if length s \<noteq> 0 then rev (py_replace_first (rev cur) (rev s) []) else cur) = m0"
    using strip_trailing [OF sc] cur unfolding m0_def by auto
  have d: "extract_intermediate_diff cur old
           = (if length p \<noteq> 0 then py_replace_first m0 p [] else m0)"
    unfolding extract_intermediate_diff_def Let_def s_def [symmetric] old_eq p_def [symmetric] d0 ..
  have fit: "p @ extract_intermediate_diff cur old @ s = cur"
    if "length p + length s \<le> length cur"
  proof -
    from that cur have "length p \<le> length m0" by (metis add_le_cancel_right length_append)
    with pc cur have "prefix p m0"
      by (metis prefix_length_prefix prefixI)
    then obtain m where m: "m0 = p @ m" by (auto simp: prefix_def)
    have "extract_intermediate_diff cur old = m"
      unfolding d m using py_replace_first_prefix [of p m] by (cases "p = []") simp_all
    with m cur show ?thesis by simp
  qed
  have over: "extract_intermediate_diff cur old @ s = cur"
    if "length cur < length p + length s"
  proof -
    from that cur have "length m0 < length p" by (metis add_less_cancel_right length_append)
    then have "extract_intermediate_diff cur old = m0"
      unfolding d by (simp add: py_replace_first_absent)
    with cur show ?thesis by simp
  qed
  show ?thesis
    unfolding Let_def s_def [symmetric] old'_def [symmetric] p_def [symmetric]
    using fit over by blast
qed

theorem extract_intermediate_diff_reconstructs_witness:
  \<open>(let cur = ''{"fruit": "apple"}''; old = ''{"fruit": "ap"}'';
        s = find_common_suffix cur old;
        old' = take (length old - length s) old;
        p = find_common_prefix cur old';
        d = extract_intermediate_diff cur old
    in length p + length s \<le> length cur \<and> p @ d @ s = cur)\<close>
proof -
  have h: \<open>(let cur = ''{"fruit": "apple"}''; old = ''{"fruit": "ap"}'';
        s = find_common_suffix cur old;
        old' = take (length old - length s) old;
        p = find_common_prefix cur old'
    in length p + length s \<le> length cur)\<close>
    by code_simp
  from extract_intermediate_diff_reconstructs
    [of \<open>''{"fruit": "apple"}''\<close> \<open>''{"fruit": "ap"}''\<close>] h
  show ?thesis
    unfolding Let_def by blast
qed

section \<open>Properties of the request validation and the terminal chunk\<close>

text \<open>
  C1. A request with \<open>tool_choice = "required"\<close> is answered with an error response
  before any chunk, and no other request is rejected by this check. The code tests
  \<open>!=\<close>: the check lets through exactly the requests with \<open>"required"\<close> and
  answers every other one, \<open>"auto"\<close> included, with the message that \<open>"required"\<close>
  is not supported.
\<close>

theorem tool_choice_validation_passes_only_required:
  \<open>(tool_choice_validation enable_auto_tools has_tool_parser choice = None)
     = (choice = ToolChoiceStr ''required'')
   \<and> tool_choice_validation enable_auto_tools has_tool_parser (ToolChoiceStr ''auto'')
       = Some ''tool_choice = "required" is not supported!''
   \<and> tool_choice_validation enable_auto_tools has_tool_parser ToolChoiceAbsent
       = Some ''tool_choice = "required" is not supported!''\<close>
  by (simp add: tool_choice_validation_def)

text \<open>
  C2, as stated: the terminal \<open>finish_reason\<close> is \<open>"tool_calls"\<close> if and only if a
  parser is in use with a non-empty \<open>prev_tool_call_arr\<close>. Without a parser, an
  engine that reports \<open>"tool_calls"\<close> itself gets it passed through.
\<close>

theorem terminal_finish_reason_engine_tool_calls_counterexample:
  "terminal_finish_reason (None :: tool_parser option) ''tool_calls'' = Inr ''tool_calls''
   \<and> \<not> parser_has_tool_calls (None :: tool_parser option)"
  by (simp add: terminal_finish_reason_def parser_has_tool_calls_def)

text \<open>
  C2, amended: the terminal \<open>finish_reason\<close> is \<open>"tool_calls"\<close> when a parser is in use
  with a non-empty \<open>prev_tool_call_arr\<close>, and the engine's reason unchanged otherwise;
  so it is \<open>"tool_calls"\<close> if and only if the parser has tool calls or the engine
  reported \<open>"tool_calls"\<close>.
\<close>

theorem terminal_finish_reason_override:
  "parser_arr_sized tool_parser' \<Longrightarrow>
   \<exists>r. terminal_finish_reason tool_parser' finish_reason = Inr r
     \<and> (parser_has_tool_calls tool_parser' \<longrightarrow> r = ''tool_calls'')
     \<and> (\<not> parser_has_tool_calls tool_parser' \<longrightarrow> r = finish_reason)
     \<and> ((r = ''tool_calls'')
          = (parser_has_tool_calls tool_parser' \<or> finish_reason = ''tool_calls''))"
  by (auto simp: terminal_finish_reason_def parser_has_tool_calls_def parser_arr_sized_def
           split: option.splits sum.splits)

theorem terminal_finish_reason_override_witness:
  "parser_arr_sized
     (Some (tool_parser_init\<lparr>prev_tool_call_arr := JArr [JObj [(''name'', JStr ''f'')]]\<rparr>))
   \<and> parser_has_tool_calls
     (Some (tool_parser_init\<lparr>prev_tool_call_arr := JArr [JObj [(''name'', JStr ''f'')]]\<rparr>))
   \<and> terminal_finish_reason
     (Some (tool_parser_init\<lparr>prev_tool_call_arr := JArr [JObj [(''name'', JStr ''f'')]]\<rparr>))
     ''stop'' = Inr ''tool_calls''"
proof -
  let ?p = "Some (tool_parser_init\<lparr>prev_tool_call_arr := JArr [JObj [(''name'', JStr ''f'')]]\<rparr>)"
  have s: "parser_arr_sized ?p"
    by (simp add: parser_arr_sized_def)
  have h: "parser_has_tool_calls ?p"
    by (simp add: parser_has_tool_calls_def)
  from terminal_finish_reason_override [OF s, of "''stop''"] h s show ?thesis
    by auto
qed

section \<open>Properties of the Mistral parser\<close>

text \<open>
  C4. \<open>extract_tool_calls\<close> returns a value on every input: an exception inside
  the \<open>try\<close> (the last conjunct) gives the fallback. Without the marker the result is
  \<open>tools_called = False\<close>, no tool calls and the unmodified output as content; with
  the marker, when the regex finds no match in the cleaned text or \<open>json.loads\<close>
  raises on the match, the result is the same fallback.
\<close>

theorem mistral_extract_tool_calls_fallback:
  "(\<not> py_in bot_token model_output \<longrightarrow>
      mistral_extract_tool_calls loads model_output
        = ExtractedToolCallInformation False [] (Some model_output))
   \<and> (py_in bot_token model_output
        \<and> tool_call_regex_first
             (py_replace (py_replace model_output bot_token []) [CHR 0x27] [CHR 0x22]) = Inr raw
        \<and> isl (loads raw) \<longrightarrow>
      mistral_extract_tool_calls loads model_output
        = ExtractedToolCallInformation False [] (Some model_output))
   \<and> (py_in bot_token model_output
        \<and> isl (tool_call_regex_first
                 (py_replace (py_replace model_output bot_token []) [CHR 0x27] [CHR 0x22])) \<longrightarrow>
      mistral_extract_tool_calls loads model_output
        = ExtractedToolCallInformation False [] (Some model_output))
   \<and> (isl (mistral_extract_try loads model_output) \<longrightarrow>
      mistral_extract_tool_calls loads model_output
        = ExtractedToolCallInformation False [] (Some model_output))"
  by (auto simp: mistral_extract_tool_calls_def mistral_extract_try_def split: sum.splits)

theorem mistral_extract_tool_calls_fallback_witness:
  \<open>py_in bot_token ''[TOOL_CALLS][{'name': 'x', 'arguments': {'k': 'v' ]''
   \<and> isl (tool_call_regex_first
            (py_replace (py_replace ''[TOOL_CALLS][{'name': 'x', 'arguments': {'k': 'v' ]''
                           bot_token []) [CHR 0x27] [CHR 0x22]))
   \<and> mistral_extract_tool_calls (\<lambda>s. Inl JSONDecodeError)
        ''[TOOL_CALLS][{'name': 'x', 'arguments': {'k': 'v' ]''
       = ExtractedToolCallInformation False []
           (Some ''[TOOL_CALLS][{'name': 'x', 'arguments': {'k': 'v' ]'')\<close>
proof -
  have h: \<open>py_in bot_token ''[TOOL_CALLS][{'name': 'x', 'arguments': {'k': 'v' ]''
   \<and> isl (tool_call_regex_first
            (py_replace (py_replace ''[TOOL_CALLS][{'name': 'x', 'arguments': {'k': 'v' ]''
                           bot_token []) [CHR 0x27] [CHR 0x22]))\<close>
    by code_simp
  from mistral_extract_tool_calls_fallback
    [of \<open>''[TOOL_CALLS][{'name': 'x', 'arguments': {'k': 'v' ]''\<close>
        \<open>\<lambda>s. Inl JSONDecodeError\<close>] h
  show ?thesis by blast
qed

text \<open>
  C8. For a step whose \<open>delta_token_ids\<close> end its \<open>current_token_ids\<close>: without the
  marker id 5 among \<open>current_token_ids\<close> the parser returns a message whose content is
  \<open>delta_text\<close> and that has no tool calls; when the marker id is the one token of
  \<open>delta_token_ids\<close> it returns \<open>None\<close>. The parser is unchanged in both cases.
\<close>

theorem mistral_passthrough_and_marker:
  "bot_token_id = 5
   \<and> (bot_token_id \<notin> set (current_token_ids step) \<longrightarrow>
      mistral_extract_tool_calls_streaming loads self step
        = (self, Some (DeltaMessage (Some (delta_text step)) [])))
   \<and> (suffix (delta_token_ids step) (current_token_ids step)
        \<and> bot_token_id \<in> set (delta_token_ids step) \<and> length (delta_token_ids step) = 1 \<longrightarrow>
      mistral_extract_tool_calls_streaming loads self step = (self, None))"
proof (intro conjI impI)
  show "bot_token_id = 5"
    by (simp add: bot_token_id_def)
next
  assume "bot_token_id \<notin> set (current_token_ids step)"
  then show "mistral_extract_tool_calls_streaming loads self step
        = (self, Some (DeltaMessage (Some (delta_text step)) []))"
    by (simp add: mistral_extract_tool_calls_streaming_def content_delta_message_def)
next
  assume a: "suffix (delta_token_ids step) (current_token_ids step)
        \<and> bot_token_id \<in> set (delta_token_ids step) \<and> length (delta_token_ids step) = 1"
  then have "set (delta_token_ids step) \<subseteq> set (current_token_ids step)"
    by (simp add: set_mono_suffix)
  with a have "bot_token_id \<in> set (current_token_ids step)" by blast
  with a show "mistral_extract_tool_calls_streaming loads self step = (self, None)"
    by (simp add: mistral_extract_tool_calls_streaming_def)
qed

theorem mistral_passthrough_and_marker_witness:
  "bot_token_id \<notin> set [1, 2, 3 :: int]
   \<and> mistral_extract_tool_calls_streaming (\<lambda>s flags. Inl JSONDecodeError) tool_parser_init
        \<lparr>previous_text = ''Hel'', current_text = ''Hello '', delta_text = ''lo '',
         previous_token_ids = [1, 2], current_token_ids = [1, 2, 3], delta_token_ids = [3]\<rparr>
       = (tool_parser_init, Some (DeltaMessage (Some ''lo '') []))
   \<and> suffix [5 :: int] [1, 2, 5] \<and> bot_token_id \<in> set [5 :: int] \<and> length [5 :: int] = 1
   \<and> mistral_extract_tool_calls_streaming (\<lambda>s flags. Inl JSONDecodeError) tool_parser_init
        \<lparr>previous_text = ''Hi'', current_text = ''Hi[TOOL_CALLS]'',
         delta_text = ''[TOOL_CALLS]'',
         previous_token_ids = [1, 2], current_token_ids = [1, 2, 5], delta_token_ids = [5]\<rparr>
       = (tool_parser_init, None)"
proof -
  let ?plain = "\<lparr>previous_text = ''Hel'', current_text = ''Hello '', delta_text = ''lo '',
         previous_token_ids = [1, 2], current_token_ids = [1, 2, 3 :: int],
         delta_token_ids = [3 :: int]\<rparr>"
  let ?marker = "\<lparr>previous_text = ''Hi'', current_text = ''Hi[TOOL_CALLS]'',
         delta_text = ''[TOOL_CALLS]'',
         previous_token_ids = [1, 2], current_token_ids = [1, 2, 5 :: int],
         delta_token_ids = [5 :: int]\<rparr>"
  have h1: "bot_token_id \<notin> set (current_token_ids ?plain)"
    by (simp add: bot_token_id_def)
  have h2: "suffix (delta_token_ids ?marker) (current_token_ids ?marker)
        \<and> bot_token_id \<in> set (delta_token_ids ?marker) \<and> length (delta_token_ids ?marker) = 1"
    by (simp add: bot_token_id_def suffix_def)
  from mistral_passthrough_and_marker
    [of ?plain "\<lambda>s flags. Inl JSONDecodeError" tool_parser_init] h1
  have r1: "mistral_extract_tool_calls_streaming (\<lambda>s flags. Inl JSONDecodeError)
              tool_parser_init ?plain
            = (tool_parser_init, Some (DeltaMessage (Some ''lo '') []))"
    by simp
  from mistral_passthrough_and_marker
    [of ?marker "\<lambda>s flags. Inl JSONDecodeError" tool_parser_init] h2
  have r2: "mistral_extract_tool_calls_streaming (\<lambda>s flags. Inl JSONDecodeError)
              tool_parser_init ?marker = (tool_parser_init, None)"
    by blast
  from h1 h2 r1 r2 show ?thesis
    unfolding bot_token_id_def by (simp add: suffix_def)
qed

text \<open>
  What the new-tool branch emits for the previous tool: the serialization of its
  arguments with every occurrence of the streamed text removed.
\<close>

lemma py_list_iadd_nth:
  "py_list_iadd xs i v = Inr ys \<Longrightarrow> 0 \<le> i \<Longrightarrow>
   nat i < length xs \<and> ys = xs[nat i := xs ! nat i @ v]"
  by (auto simp: py_list_iadd_def py_list_get_def py_list_set_def py_index_of_def
           split: sum.splits option.splits if_splits)

lemma mistral_start_new_tool_diff:
  "mistral_start_new_tool self n call = (self', Some delta) \<Longrightarrow>
   \<exists>args streamed.
      py_get call ''arguments'' = Inr args
      \<and> py_list_get (streamed_args_for_tool self) (current_tool_id self) = Inr streamed
      \<and> delta = arguments_delta_message (current_tool_id self)
                  (py_replace (json_dumps args) streamed [])"
  unfolding mistral_start_new_tool_def Let_def
  by (auto split: if_splits sum.splits)

text \<open>
  C5. In the new-tool branch the tail of the previous tool's arguments is the
  serialization without one occurrence of the streamed text, so later occurrences
  stay in the emitted diff. The code calls \<open>replace\<close> without a count: on the
  serialization \<open>{"k": {"k": 1}}\<close> with \<open>{"k": \<close> streamed, removing one occurrence
  leaves \<open>{"k": 1}}\<close>, and the parser emits \<open>1}}\<close>.
\<close>

theorem mistral_new_tool_replaces_every_occurrence:
  \<open>mistral_extract_tool_calls_streaming nested_args_loads nested_args_parser nested_args_step
     = (nested_args_parser
          \<lparr>current_tool_id := 1, current_tool_name_sent := False,
           current_tool_initial_sent := False,
           streamed_args_for_tool := [''{"k": 1}}'', []]\<rparr>,
        Some (DeltaMessage None [DeltaToolCall 0 (DeltaFunctionCall None (Some ''1}}''))]))
   \<and> json_dumps (JObj [(''k'', JObj [(''k'', JInt 1)])]) = ''{"k": {"k": 1}}''
   \<and> py_replace_first ''{"k": {"k": 1}}'' ''{"k": '' [] = ''{"k": 1}}''
   \<and> py_replace ''{"k": {"k": 1}}'' ''{"k": '' [] = ''1}}''\<close>
  by code_simp

section \<open>Properties of the streaming state\<close>

text \<open>
  The Hermes parser keeps \<open>len(streamed_args_for_tool) == current_tool_id + 1\<close>: the
  only place that moves \<open>current_tool_id\<close> adds one to it and appends one string.
\<close>

lemma py_list_set_length: "py_list_set xs i v = Inr ys \<Longrightarrow> length ys = length xs"
  by (auto simp: py_list_set_def split: option.splits)

lemma py_list_iadd_length: "py_list_iadd xs i v = Inr ys \<Longrightarrow> length ys = length xs"
  by (auto simp: py_list_iadd_def dest: py_list_set_length split: sum.splits)

lemma stream_arguments_delta_aligned:
  "stream_arguments_delta self args = Inr (self', delta) \<Longrightarrow>
   streamed_args_aligned self \<Longrightarrow> streamed_args_aligned self'"
  by (auto simp: stream_arguments_delta_def streamed_args_aligned_def
           dest: py_list_iadd_length split: sum.splits)

lemma stream_arguments_aligned:
  "stream_arguments self cur prev needle = Inr (self', delta) \<Longrightarrow>
   streamed_args_aligned self \<Longrightarrow> streamed_args_aligned self'"
  by (auto simp: stream_arguments_def Let_def
           dest: stream_arguments_delta_aligned split: if_splits sum.splits)

lemma hermes_save_tool_call_aligned:
  "hermes_save_tool_call self call = Inr self' \<Longrightarrow>
   streamed_args_aligned self \<Longrightarrow> streamed_args_aligned self'"
  by (auto simp: hermes_save_tool_call_def streamed_args_aligned_def split: sum.splits if_splits)

lemma hermes_stream_tool_arguments_aligned:
  "hermes_stream_tool_arguments self call text = (self', delta) \<Longrightarrow>
   streamed_args_aligned self \<Longrightarrow> streamed_args_aligned self'"
proof -
  assume r: "hermes_stream_tool_arguments self call text = (self', delta)"
    and a: "streamed_args_aligned self"
  have upd: "streamed_args_aligned (self\<lparr>prev_tool_call_arr := arr\<rparr>)" for arr
    using a by (simp add: streamed_args_aligned_def)
  from r show ?thesis
    unfolding hermes_stream_tool_arguments_def Let_def
    using a upd
    by (auto split: sum.splits if_splits prod.splits
             dest!: stream_arguments_aligned hermes_save_tool_call_aligned)
qed

lemma hermes_emit_aligned:
  "hermes_emit loads flags self portion text = (self', delta) \<Longrightarrow>
   streamed_args_aligned self \<Longrightarrow> streamed_args_aligned self'"
proof -
  assume r: "hermes_emit loads flags self portion text = (self', delta)"
    and a: "streamed_args_aligned self"
  have i: "streamed_args_aligned (self\<lparr>current_tool_initial_sent := True\<rparr>)"
    and n: "streamed_args_aligned (self\<lparr>current_tool_name_sent := True\<rparr>)"
    using a by (simp_all add: streamed_args_aligned_def)
  from r show ?thesis
    unfolding hermes_emit_def
    using a i n
    by (auto split: sum.splits if_splits option.splits
             dest: hermes_stream_tool_arguments_aligned)
qed

lemma hermes_close_tool_same: "hermes_close_tool self = (self', delta) \<Longrightarrow> self' = self"
  by (auto simp: hermes_close_tool_def split: sum.splits if_splits)

lemma hermes_streaming_keeps_aligned:
  "hermes_extract_tool_calls_streaming loads self step = (self', delta) \<Longrightarrow>
   streamed_args_aligned self \<Longrightarrow> streamed_args_aligned self'"
proof -
  assume r: "hermes_extract_tool_calls_streaming loads self step = (self', delta)"
    and a: "streamed_args_aligned self"
  have new: "streamed_args_aligned
       (self\<lparr>current_tool_id := current_tool_id self + 1,
             current_tool_name_sent := False,
             current_tool_initial_sent := False,
             streamed_args_for_tool := streamed_args_for_tool self @ [[]]\<rparr>)"
    using a by (simp add: streamed_args_aligned_def)
  from r show ?thesis
    unfolding hermes_extract_tool_calls_streaming_def Let_def
    using a
    by (auto split: sum.splits if_splits
             dest: hermes_emit_aligned [OF _ new] hermes_emit_aligned [OF _ a]
                   hermes_close_tool_same)
qed

lemma hermes_init_aligned: "hermes_init tok = Inr self \<Longrightarrow> streamed_args_aligned self"
  by (auto simp: hermes_init_def streamed_args_aligned_def split: option.splits if_splits)

text \<open>
  C9. At every step boundary of both parsers \<open>len(streamed_args_for_tool)\<close> is
  \<open>current_tool_id + 1\<close>, also when one step makes the parsed array longer by more
  than one. The Mistral parser sets \<open>current_tool_id\<close> to the last index of the array
  and appends one string: from the initial state, a step that brings two tool calls
  leaves \<open>current_tool_id = 1\<close> with one streamed string.
\<close>

theorem mistral_two_tools_in_one_step:
  \<open>streamed_args_aligned tool_parser_init
   \<and> mistral_extract_tool_calls_streaming two_tools_loads tool_parser_init two_tools_step
       = (tool_parser_init\<lparr>current_tool_id := 1, streamed_args_for_tool := [[]]\<rparr>, None)
   \<and> \<not> streamed_args_aligned
         (fst (mistral_extract_tool_calls_streaming two_tools_loads tool_parser_init
                 two_tools_step))\<close>
  by code_simp

text \<open>
  The Mistral parser adds every arguments delta it returns to
  \<open>streamed_args_for_tool\<close> at the index of the delta.
\<close>

lemma stream_arguments_delta_records:
  "stream_arguments_delta self a
     = Inr (self', Some (DeltaMessage c [DeltaToolCall i (DeltaFunctionCall nm (Some args))])) \<Longrightarrow>
   0 \<le> current_tool_id self \<Longrightarrow>
   i = current_tool_id self \<and> nat i < length (streamed_args_for_tool self)
   \<and> streamed_args_for_tool self'
       = (streamed_args_for_tool self)[nat i := streamed_args_for_tool self ! nat i @ args]"
  by (auto simp: stream_arguments_delta_def arguments_delta_message_def
           dest: py_list_iadd_nth split: sum.splits)

lemma stream_arguments_records:
  "stream_arguments self cur prev needle
     = Inr (self', Some (DeltaMessage c [DeltaToolCall i (DeltaFunctionCall nm (Some args))])) \<Longrightarrow>
   0 \<le> current_tool_id self \<Longrightarrow>
   i = current_tool_id self \<and> nat i < length (streamed_args_for_tool self)
   \<and> streamed_args_for_tool self'
       = (streamed_args_for_tool self)[nat i := streamed_args_for_tool self ! nat i @ args]"
  by (auto simp: stream_arguments_def Let_def
           dest: stream_arguments_delta_records split: if_splits sum.splits)

lemma mistral_update_tool_records:
  "mistral_update_tool self arr call text
     = (self', Some (DeltaMessage c [DeltaToolCall i (DeltaFunctionCall nm (Some args))])) \<Longrightarrow>
   0 \<le> current_tool_id self \<Longrightarrow>
   i = current_tool_id self \<and> nat i < length (streamed_args_for_tool self)
   \<and> streamed_args_for_tool self'
       = (streamed_args_for_tool self)[nat i := streamed_args_for_tool self ! nat i @ args]"
  unfolding mistral_update_tool_def Let_def
  by (auto simp: initial_delta_message_def name_delta_message_def
           dest: stream_arguments_records split: if_splits sum.splits prod.splits)

lemma mistral_start_new_tool_records:
  "mistral_start_new_tool self n call
     = (self', Some (DeltaMessage c [DeltaToolCall i (DeltaFunctionCall nm (Some args))])) \<Longrightarrow>
   i = current_tool_id self \<and> 0 \<le> i \<and> nat i < length (streamed_args_for_tool self)
   \<and> streamed_args_for_tool self'
       = (streamed_args_for_tool self)[nat i := streamed_args_for_tool self ! nat i @ args] @ [[]]"
  unfolding mistral_start_new_tool_def Let_def
  by (auto simp: mistral_reset_for_new_tool_def arguments_delta_message_def
           dest: py_list_iadd_nth split: if_splits sum.splits)

lemma mistral_streaming_records_arguments:
  "mistral_extract_tool_calls_streaming loads self step
     = (self', Some (DeltaMessage c [DeltaToolCall i (DeltaFunctionCall nm (Some args))])) \<Longrightarrow>
   i = current_tool_id self \<and> 0 \<le> i \<and> nat i < length (streamed_args_for_tool self)
   \<and> streamed_args_for_tool self' ! nat i = streamed_args_for_tool self ! nat i @ args"
  unfolding mistral_extract_tool_calls_streaming_def Let_def
  by (auto simp: content_delta_message_def nth_append
           dest!: mistral_update_tool_records mistral_start_new_tool_records
           split: if_splits sum.splits)

text \<open>
  C3. At every step boundary \<open>streamed_args_for_tool[i]\<close> is the concatenation of the
  arguments deltas emitted for tool \<open>i\<close>, in both dialects. The Hermes branch that
  closes a tool call returns the rest of the arguments and leaves
  \<open>streamed_args_for_tool\<close> as it was: with \<open>{"x": 1\<close> streamed, the step of the end
  tag emits \<open>}\<close> and the streamed text is still \<open>{"x": 1\<close>.
\<close>

theorem hermes_close_emits_without_recording:
  \<open>hermes_extract_tool_calls_streaming (\<lambda>s flags. Inl JSONDecodeError) closing_parser
       closing_step
     = (closing_parser,
        Some (DeltaMessage None [DeltaToolCall 0 (DeltaFunctionCall None (Some ''}''))]))
   \<and> streamed_args_for_tool closing_parser = [''{"x": 1'']\<close>
  by code_simp

section \<open>Properties of the Hermes constructor\<close>

text \<open>
  C10. The constructor raises without a tokenizer, and for every tokenizer whose
  vocabulary maps \<open><tool_call>\<close> or \<open></tool_call>\<close> to the id 0; with both tags in the
  vocabulary the error is the \<open>RuntimeError\<close> of the check that could not locate
  the tokens.
\<close>

theorem hermes_init_rejects_id_zero:
  "hermes_init None = Inl ValueError
   \<and> (map_of v ''<tool_call>'' = Some 0 \<or> map_of v ''</tool_call>'' = Some 0 \<longrightarrow>
        isl (hermes_init (Some (Tokenizer v))))
   \<and> (map_of v ''<tool_call>'' = Some a \<and> map_of v ''</tool_call>'' = Some b
        \<and> (a = 0 \<or> b = 0) \<longrightarrow>
        hermes_init (Some (Tokenizer v)) = Inl RuntimeError)"
  by (auto simp: hermes_init_def split: option.splits)

theorem hermes_init_rejects_id_zero_witness:
  "map_of [(''<tool_call>'', 0 :: int), (''</tool_call>'', 32001)] ''<tool_call>'' = Some 0
   \<and> map_of [(''<tool_call>'', 0 :: int), (''</tool_call>'', 32001)] ''</tool_call>'' = Some 32001
   \<and> hermes_init (Some (Tokenizer [(''<tool_call>'', 0), (''</tool_call>'', 32001)]))
       = Inl RuntimeError"
proof -
  have h: "map_of [(''<tool_call>'', 0 :: int), (''</tool_call>'', 32001)] ''<tool_call>'' = Some 0
   \<and> map_of [(''<tool_call>'', 0 :: int), (''</tool_call>'', 32001)] ''</tool_call>'' = Some 32001"
    by simp
  from hermes_init_rejects_id_zero
    [of "[(''<tool_call>'', 0), (''</tool_call>'', 32001)]" 0 32001] h
  show ?thesis by blast
qed

end
